theory Spec2Isabelle
  imports Complex_Main
begin

section \<open>Errors and primitives of the array runtime\<close>

text \<open>
  Python exceptions are values: every function that can raise returns \<open>error + 'a\<close>, with
  \<open>Inl\<close> the exception. Tensor elements are modelled as reals: rounding, infinities and
  NaN of the floating-point runtime are outside the model.
\<close>

datatype error =
    AssertionError | ZeroDivisionError | ValueError | IndexError | TypeError | RuntimeError

definition bind :: "error + 'a \<Rightarrow> ('a \<Rightarrow> error + 'b) \<Rightarrow> error + 'b" where
  "bind r f = (case r of Inl e \<Rightarrow> Inl e | Inr v \<Rightarrow> f v)"

text \<open>\<^verbatim>\<open>Tensor.clamp(lo, hi)\<close> on one element.\<close>

definition clamp :: "real \<Rightarrow> real \<Rightarrow> real \<Rightarrow> real" where
  "clamp lo hi v = min (max v lo) hi"

text \<open>
  \<^verbatim>\<open>torch.linspace(start, end, steps)\<close>: \<open>steps\<close> equally spaced points, both ends
  included; a single step gives \<open>[start]\<close>.
\<close>

definition linspace :: "real \<Rightarrow> real \<Rightarrow> nat \<Rightarrow> real list" where
  "linspace a b n =
     (if n = 1 then [a] else map (\<lambda>i. a + real i * ((b - a) / real (n - 1))) [0..<n])"

text \<open>
  The Python slice \<^verbatim>\<open>xs[-k:]\<close> along the first axis, for \<open>k \<ge> 0\<close>: the last \<open>k\<close>
  entries, all of them when \<open>k\<close> exceeds the length, and, since \<^verbatim>\<open>-0\<close> is \<open>0\<close>, the
  whole sequence when \<open>k = 0\<close>.
\<close>

definition slice_last :: "nat \<Rightarrow> 'a list \<Rightarrow> 'a list" where
  "slice_last k xs = (if k = 0 then xs else drop (length xs - k) xs)"

text \<open>
  The general Python slice \<^verbatim>\<open>xs[start:stop]\<close> with integer bounds: a negative bound
  counts from the end, and both are clipped to the sequence.
\<close>

definition slice_bound :: "nat \<Rightarrow> int \<Rightarrow> nat" where
  "slice_bound n i = (if i < 0 then nat (max 0 (int n + i)) else min n (nat i))"

definition slice_len :: "nat \<Rightarrow> int \<Rightarrow> int \<Rightarrow> nat" where
  "slice_len n start stop = slice_bound n stop - slice_bound n start"

text \<open>\<^verbatim>\<open>int(x)\<close> of a float: truncation towards zero.\<close>

definition py_int :: "real \<Rightarrow> int" where
  "py_int x = (if 0 \<le> x then \<lfloor>x\<rfloor> else \<lceil>x\<rceil>)"

section \<open>AdaptiveMask\<close>

text \<open>
  The span parameter \<^verbatim>\<open>current_val = zeros(*shape) + init_val\<close>. Two shapes occur in
  the repository and are modelled: the one-axis shape \<^verbatim>\<open>(k,)\<close> (the constructor's default
  is \<^verbatim>\<open>(1,)\<close>) and the shape \<^verbatim>\<open>(groups, 1)\<close> that \<^verbatim>\<open>AttentionConv\<close> passes.
\<close>

datatype span_shape = Flat int | Grouped int

datatype span_param = Span1 "real list" | Span2 "real list"

fun span_values :: "span_param \<Rightarrow> real list" where
  "span_values (Span1 vs) = vs"
| "span_values (Span2 vs) = vs"

fun map_span :: "(real \<Rightarrow> real) \<Rightarrow> span_param \<Rightarrow> span_param" where
  "map_span f (Span1 vs) = Span1 (map f vs)"
| "map_span f (Span2 vs) = Span2 (map f vs)"

record AdaptiveMask =
  max_size :: real
  ramp_size :: real
  current_val :: span_param
  mask_template :: "real list"

text \<open>\<^verbatim>\<open>torch.zeros(*shape) + init_val\<close>; a negative dimension is refused by the runtime.\<close>

definition zeros_plus :: "span_shape \<Rightarrow> real \<Rightarrow> error + span_param" where
  "zeros_plus sh v =
     (case sh of
        Flat k \<Rightarrow> if k < 0 then Inl RuntimeError else Inr (Span1 (replicate (nat k) v))
      | Grouped g \<Rightarrow> if g < 0 then Inl RuntimeError else Inr (Span2 (replicate (nat g) v)))"

text \<open>
  \<^verbatim>\<open>max_size\<close> is a Python number, an \<^verbatim>\<open>int\<close> or a \<^verbatim>\<open>float\<close>. The difference matters
  at line 32, where it is the \<^verbatim>\<open>steps\<close> argument of \<^verbatim>\<open>linspace\<close>: the runtime takes an
  \<^verbatim>\<open>int\<close> there and refuses a \<^verbatim>\<open>float\<close> by its type, whatever its value
  (\<^verbatim>\<open>TypeError\<close>); a negative number of steps is refused as well.
\<close>

datatype py_num = PyInt int | PyFloat real

fun num_val :: "py_num \<Rightarrow> real" where
  "num_val (PyInt i) = of_int i"
| "num_val (PyFloat x) = x"

definition linspace_steps :: "py_num \<Rightarrow> error + nat" where
  "linspace_steps s =
     (case s of
        PyFloat x \<Rightarrow> Inl TypeError
      | PyInt i \<Rightarrow> if i < 0 then Inl RuntimeError else Inr (nat i))"

text \<open>
  \<^verbatim>\<open>__init__\<close>: the span parameter (line 31), then the template (line 32). Where the
  number \<^verbatim>\<open>max_size\<close> is used for its value it is read as a real.
\<close>

definition AdaptiveMask_init :: "py_num \<Rightarrow> real \<Rightarrow> real \<Rightarrow> span_shape \<Rightarrow> error + AdaptiveMask" where
  "AdaptiveMask_init ms rs init_val sh =
     bind (zeros_plus sh init_val) (\<lambda>cv.
     bind (linspace_steps ms) (\<lambda>n.
       Inr \<lparr>max_size = num_val ms, ramp_size = rs, current_val = cv,
             mask_template = linspace (1 - num_val ms) 0 n\<rparr>))"

subsection \<open>forward: the one-dimensional ramp\<close>

text \<open>
  One entry of \<^verbatim>\<open>((mask_template + current_val * max_size) / ramp_size + 1).clamp(0, 1)\<close>,
  from template entry \<open>t\<close> and span value \<open>v\<close>. (\<^verbatim>\<open>ramp_size\<close> is the positive width of
  the ramp; for \<^verbatim>\<open>ramp_size = 0\<close> the runtime's infinities are not modelled.)
\<close>

definition ramp_entry :: "AdaptiveMask \<Rightarrow> real \<Rightarrow> real \<Rightarrow> real" where
  "ramp_entry m t v = clamp 0 1 ((t + v * max_size m) / ramp_size m + 1)"

text \<open>
  The ramp tensor has one axis for the shape \<^verbatim>\<open>(k,)\<close> and two, \<^verbatim>\<open>(groups, max_size)\<close>,
  for the shape \<^verbatim>\<open>(groups, 1)\<close>.
\<close>

datatype ramp = Ramp1 "real list" | Ramp2 "real list list"

text \<open>
  Lines 36 to 38. Broadcasting \<^verbatim>\<open>(max_size,)\<close> against \<^verbatim>\<open>(k,)\<close> needs equal lengths or
  a length of one on either side; against \<^verbatim>\<open>(groups, 1)\<close> it always succeeds.
\<close>

definition one_d_mask :: "AdaptiveMask \<Rightarrow> error + ramp" where
  "one_d_mask m =
     (let ts = mask_template m in
      case current_val m of
        Span1 vs \<Rightarrow>
          if length vs = length ts then Inr (Ramp1 (map2 (ramp_entry m) ts vs))
          else if length vs = 1 then Inr (Ramp1 (map (\<lambda>t. ramp_entry m t (hd vs)) ts))
          else if length ts = 1 then Inr (Ramp1 (map (\<lambda>v. ramp_entry m (hd ts) v) vs))
          else Inl RuntimeError
      | Span2 vs \<Rightarrow> Inr (Ramp2 (map (\<lambda>v. map (\<lambda>t. ramp_entry m t v) ts) vs)))"

text \<open>Line 41: \<^verbatim>\<open>one_d_mask[-(x.shape[-1]//2):]\<close>, a slice of the first axis.\<close>

fun slice_ramp :: "nat \<Rightarrow> ramp \<Rightarrow> ramp" where
  "slice_ramp n (Ramp1 xs) = Ramp1 (slice_last (n div 2) xs)"
| "slice_ramp n (Ramp2 rows) = Ramp2 (slice_last (n div 2) rows)"

text \<open>
  \<^verbatim>\<open>one_d_mask[i]\<close> for \<open>i\<close> in \<^verbatim>\<open>range(len(one_d_mask))\<close>: a number for a one-axis ramp,
  a whole row for a two-axis ramp.
\<close>

datatype weight = Scalar real | Row "real list"

fun ramp_weights :: "ramp \<Rightarrow> weight list" where
  "ramp_weights (Ramp1 xs) = map Scalar xs"
| "ramp_weights (Ramp2 rows) = map Row rows"

subsection \<open>forward: the ring loop\<close>

text \<open>
  Lines 51 to 55: the index list of one iteration, as (first index, second index) pairs just
  as the source builds them. \<^verbatim>\<open>range(a, b)\<close> is \<open>[a..b - 1]\<close>.
\<close>

definition ring_indices :: "int \<Rightarrow> int \<Rightarrow> (int \<times> int) list" where
  "ring_indices left right =
     (let bottom = left; top = right in
        map (\<lambda>j. (left, j)) [bottom..top]
      @ map (\<lambda>j. (bottom, j)) [left + 1..right]
      @ map (\<lambda>j. (top, j)) [left + 1..right]
      @ map (\<lambda>j. (right, j)) [bottom + 1..top - 1])"

text \<open>Line 56: \<^verbatim>\<open>rows, cols = zip(*indices)\<close> cannot unpack when the list is empty.\<close>

definition unzip_indices :: "(int \<times> int) list \<Rightarrow> error + (int list \<times> int list)" where
  "unzip_indices idx = (if idx = [] then Inl ValueError else Inr (map fst idx, map snd idx))"

text \<open>An index into an axis of length \<open>n\<close>; negative indices count from the end.\<close>

definition axis_index :: "nat \<Rightarrow> int \<Rightarrow> error + nat" where
  "axis_index n i =
     (if 0 \<le> i \<and> i < int n then Inr (nat i)
      else if - int n \<le> i \<and> i < 0 then Inr (nat (i + int n))
      else Inl IndexError)"

text \<open>
  \<^verbatim>\<open>mask[rows, cols] = values\<close> with one value per index pair, written in order (the
  runtime leaves the winner among repeated pairs open when the values differ).
\<close>

fun index_put :: "nat \<Rightarrow> real list list \<Rightarrow> (int \<times> int) list \<Rightarrow> real list \<Rightarrow> error + real list list" where
  "index_put n msk ((r, c) # idx) (v # vs) =
     bind (axis_index n r) (\<lambda>r'.
     bind (axis_index n c) (\<lambda>c'.
       index_put n (msk[r' := (msk ! r')[c' := v]]) idx vs))"
| "index_put n msk idx vs = Inr msk"

text \<open>
  Line 57: the assigned value is broadcast to the index pairs: a number fills them all, a
  row must have one entry per pair or a single entry.
\<close>

definition assign :: "nat \<Rightarrow> real list list \<Rightarrow> int list \<times> int list \<Rightarrow> weight \<Rightarrow> error + real list list" where
  "assign n msk rc w =
     (let idx = zip (fst rc) (snd rc) in
      case w of
        Scalar v \<Rightarrow> index_put n msk idx (replicate (length idx) v)
      | Row vs \<Rightarrow>
          if length vs = length idx then index_put n msk idx vs
          else if length vs = 1 then index_put n msk idx (replicate (length idx) (hd vs))
          else Inl RuntimeError)"

text \<open>Lines 50 to 60: one iteration per entry of the sliced ramp.\<close>

fun ring_loop :: "nat \<Rightarrow> weight list \<Rightarrow> int \<Rightarrow> int \<Rightarrow> real list list \<Rightarrow> error + real list list" where
  "ring_loop n [] left right msk = Inr msk"
| "ring_loop n (w # ws) left right msk =
     bind (unzip_indices (ring_indices left right)) (\<lambda>rc.
     bind (assign n msk rc w) (\<lambda>msk'.
       ring_loop n ws (left + 1) (right - 1) msk'))"

text \<open>Lines 41 to 60 for an input whose last axis has length \<open>n\<close>.\<close>

definition rings :: "ramp \<Rightarrow> nat \<Rightarrow> error + real list list" where
  "rings r n =
     ring_loop n (ramp_weights (slice_ramp n r)) 0 (int n - 1) (replicate n (replicate n 1))"

text \<open>The \<open>n \<times> n\<close> weight grid that \<^verbatim>\<open>forward\<close> builds (lines 36 to 60).\<close>

definition mask_grid :: "AdaptiveMask \<Rightarrow> nat \<Rightarrow> error + real list list" where
  "mask_grid m n = bind (one_d_mask m) (\<lambda>r. rings r n)"

subsection \<open>forward: applying the mask\<close>

text \<open>A tensor: its shape and its elements by index.\<close>

record tensor =
  dims :: "nat list"
  cell :: "nat list \<Rightarrow> real"

text \<open>
  The shape of \<^verbatim>\<open>x * mask\<close> for a mask of shape \<open>(n, n)\<close>, where \<open>n\<close> is the last axis
  of \<open>x\<close>: the axis before it must be \<open>n\<close> or \<open>1\<close>, unless \<open>n = 1\<close>. The argument is
  the shape reversed.
\<close>

fun mul_dims :: "nat list \<Rightarrow> nat \<Rightarrow> error + nat list" where
  "mul_dims [] n = Inl IndexError"
| "mul_dims [w] n = Inr [n, n]"
| "mul_dims (w # h # lead) n =
     (if h = n \<or> h = 1 \<or> n = 1 then Inr (rev lead @ [if h = 1 then n else h, n])
      else Inl RuntimeError)"

definition mul_mask :: "tensor \<Rightarrow> nat \<Rightarrow> real list list \<Rightarrow> error + tensor" where
  "mul_mask x n msk =
     bind (mul_dims (rev (dims x)) n) (\<lambda>ds.
       let k = length ds - 2; rank = length (dims x);
           h = (if rank < 2 then 1 else dims x ! (rank - 2))
       in Inr \<lparr>dims = ds,
               cell = (\<lambda>idx.
                 let r = idx ! k; c = idx ! (k + 1);
                     src = (if rank < 2 then [c]
                            else take k idx @ [if h = 1 then 0 else r, c])
                 in cell x src * msk ! (if n = 1 then 0 else r) ! c)\<rparr>)"

text \<open>\<^verbatim>\<open>forward\<close>: \<^verbatim>\<open>x.shape[-1]\<close> does not exist for a tensor without axes.\<close>

definition AdaptiveMask_forward :: "AdaptiveMask \<Rightarrow> tensor \<Rightarrow> error + tensor" where
  "AdaptiveMask_forward m x =
     bind (one_d_mask m) (\<lambda>r.
       case rev (dims x) of
         [] \<Rightarrow> Inl IndexError
       | n # _ \<Rightarrow> bind (rings r n) (\<lambda>msk. mul_mask x n msk))"

subsection \<open>Span queries and clamping\<close>

text \<open>\<^verbatim>\<open>Tensor.max()\<close> is refused on a tensor without elements.\<close>

definition tensor_max :: "real list \<Rightarrow> error + real" where
  "tensor_max vs = (case vs of [] \<Rightarrow> Inl RuntimeError | v # rest \<Rightarrow> Inr (fold max rest v))"

definition get_current_max_size :: "AdaptiveMask \<Rightarrow> bool \<Rightarrow> error + real" where
  "get_current_max_size m include_ramp =
     bind (tensor_max (span_values (current_val m))) (\<lambda>v.
       let current_size = of_int \<lceil>v * max_size m\<rceil>;
           current_size = (if include_ramp then current_size + ramp_size m else current_size)
       in Inr (max 0 (min (max_size m) current_size)))"

text \<open>
  \<^verbatim>\<open>Tensor.mean()\<close> of a tensor without elements is NaN, which \<^verbatim>\<open>math.ceil\<close> refuses.
\<close>

definition get_current_avg_size :: "AdaptiveMask \<Rightarrow> bool \<Rightarrow> error + real" where
  "get_current_avg_size m include_ramp =
     (let vs = span_values (current_val m) in
      if vs = [] then Inl ValueError
      else
        let current_size = of_int \<lceil>(sum_list vs / real (length vs)) * max_size m\<rceil>;
            current_size = (if include_ramp then current_size + ramp_size m else current_size)
        in Inr (max 0 (min (max_size m) current_size)))"

definition clamp_param :: "AdaptiveMask \<Rightarrow> AdaptiveMask" where
  "clamp_param m = m\<lparr>current_val := map_span (clamp 0 1) (current_val m)\<rparr>"

section \<open>AttentionConv\<close>

text \<open>
  The relative biases and the projection weights are drawn at random by the constructor, so
  the layer records their shapes. \<^verbatim>\<open>in_channels\<close> and \<^verbatim>\<open>conv_bias\<close> stand for the three
  \<open>1 \<times> 1\<close> projections \<^verbatim>\<open>key_conv\<close>, \<^verbatim>\<open>query_conv\<close> and \<^verbatim>\<open>value_conv\<close>, which are
  built alike.
\<close>

record AttentionConv =
  out_channels :: int
  kernel_size :: int
  adaptive_span :: bool
  stride :: int
  padding :: int
  groups :: int
  rel_h :: "nat list"
  rel_w :: "nat list"
  adaptive_mask :: AdaptiveMask
  in_channels :: int
  conv_bias :: bool

text \<open>Allocating a tensor of a given shape: a negative dimension is refused.\<close>

definition alloc :: "int list \<Rightarrow> error + nat list" where
  "alloc ds = (if list_ex (\<lambda>d. d < 0) ds then Inl RuntimeError else Inr (map nat ds))"

text \<open>
  \<^verbatim>\<open>__init__\<close> up to line 116: the stored kernel size (line 104), the assertion (line
  110; \<^verbatim>\<open>%\<close> by zero raises first) and the two biases, allocated with the constructor
  argument \<^verbatim>\<open>kernel_size\<close> (lines 115 and 116). The result is the stored kernel size and
  the shapes of \<^verbatim>\<open>rel_h\<close> and \<^verbatim>\<open>rel_w\<close>.
\<close>

definition init_biases :: "int \<Rightarrow> int \<Rightarrow> int \<Rightarrow> int \<Rightarrow> bool \<Rightarrow> error + int \<times> nat list \<times> nat list" where
  "init_biases out_ch ksize grps image_size adaptive =
     (let self_kernel_size = (if adaptive then image_size + 1 else ksize) in
      if grps = 0 then Inl ZeroDivisionError
      else if out_ch mod grps \<noteq> 0 then Inl AssertionError
      else
        bind (alloc [out_ch div 2, 1, 1, ksize, 1]) (\<lambda>rh.
        bind (alloc [out_ch div 2, 1, 1, 1, ksize]) (\<lambda>rw.
          Inr (self_kernel_size, rh, rw))))"

text \<open>
  The whole of \<^verbatim>\<open>__init__\<close>: after the biases, the mask is built with
  \<^verbatim>\<open>max_size = image_size/2\<close>, which is a \<^verbatim>\<open>float\<close> for every \<^verbatim>\<open>image_size\<close> since \<^verbatim>\<open>/\<close>
  is true division, and with shape \<^verbatim>\<open>(groups, 1)\<close> (lines 118 to 120); then come the
  projections' weights of shape \<^verbatim>\<open>(out_channels, in_channels, 1, 1)\<close>.
\<close>

definition AttentionConv_init ::
  "int \<Rightarrow> int \<Rightarrow> int \<Rightarrow> int \<Rightarrow> int \<Rightarrow> int \<Rightarrow> bool \<Rightarrow> real \<Rightarrow> real \<Rightarrow> int \<Rightarrow> bool
     \<Rightarrow> error + AttentionConv" where
  "AttentionConv_init in_ch out_ch ksize strd pad grps bias R z_init image_size adaptive =
     bind (init_biases out_ch ksize grps image_size adaptive) (\<lambda>(self_kernel_size, rh, rw).
     bind (AdaptiveMask_init (PyFloat (real_of_int image_size / 2)) R z_init (Grouped grps))
       (\<lambda>am.
     bind (alloc [out_ch, in_ch, 1, 1]) (\<lambda>w.
       Inr \<lparr>out_channels = out_ch, kernel_size = self_kernel_size,
             adaptive_span = adaptive, stride = strd, padding = pad, groups = grps,
             rel_h = rh, rel_w = rw, adaptive_mask = am,
             in_channels = in_ch, conv_bias = bias\<rparr>)))"

subsection \<open>forward: the effective kernel size and padding\<close>

text \<open>
  Lines 152 to 155: \<^verbatim>\<open>math.ceil(2 * (get_current_max_size() + 1))\<close>, made odd. The query
  includes the ramp (its default).
\<close>

definition adaptive_kernel_size :: "AdaptiveMask \<Rightarrow> error + int" where
  "adaptive_kernel_size m =
     bind (get_current_max_size m True) (\<lambda>s.
       let k = \<lceil>2 * (s + 1)\<rceil> in Inr (if k mod 2 = 0 then k + 1 else k))"

text \<open>Lines 151 to 161; \<^verbatim>\<open>padding = int((kernel_size - 1) / 2)\<close> goes through a float.\<close>

definition effective_kernel_padding :: "AttentionConv \<Rightarrow> error + int \<times> int" where
  "effective_kernel_padding self =
     (if adaptive_span self then
        bind (adaptive_kernel_size (adaptive_mask self)) (\<lambda>k.
          Inr (k, py_int (real_of_int (k - 1) / 2)))
      else Inr (kernel_size self, padding self))"

subsection \<open>forward: the shapes of the intermediate tensors\<close>

text \<open>
  The forward pass is followed at the level of shapes: each operation of the runtime maps
  the shapes of its arguments to the shape of its result, or refuses them.
\<close>

text \<open>Broadcasting two shapes, aligned at the last axis; the arguments are reversed shapes.\<close>

fun broadcast_rev :: "nat list \<Rightarrow> nat list \<Rightarrow> error + nat list" where
  "broadcast_rev [] ys = Inr ys"
| "broadcast_rev xs [] = Inr xs"
| "broadcast_rev (x # xs) (y # ys) =
     (if x = y \<or> x = 1 \<or> y = 1
      then bind (broadcast_rev xs ys) (\<lambda>r. Inr ((if x = 1 then y else x) # r))
      else Inl RuntimeError)"

definition broadcast :: "nat list \<Rightarrow> nat list \<Rightarrow> error + nat list" where
  "broadcast a b = bind (broadcast_rev (rev a) (rev b)) (\<lambda>r. Inr (rev r))"

text \<open>\<^verbatim>\<open>F.pad(x, [p, p, p, p])\<close>: the last two axes grow by \<open>p\<close> on each side.\<close>

definition pad_dims :: "nat list \<Rightarrow> int \<Rightarrow> error + nat list" where
  "pad_dims ds p =
     (case ds of
        [b, c, h, w] \<Rightarrow>
          if int h + 2 * p < 0 \<or> int w + 2 * p < 0 then Inl RuntimeError
          else Inr [b, c, nat (int h + 2 * p), nat (int w + 2 * p)]
      | _ \<Rightarrow> Inl RuntimeError)"

text \<open>A \<open>1 \<times> 1\<close> projection: the channel axis must be \<^verbatim>\<open>in_channels\<close>.\<close>

definition conv_dims :: "AttentionConv \<Rightarrow> nat list \<Rightarrow> error + nat list" where
  "conv_dims self ds =
     (case ds of
        [b, c, h, w] \<Rightarrow>
          if int c \<noteq> in_channels self \<or> h = 0 \<or> w = 0 then Inl RuntimeError
          else Inr [b, nat (out_channels self), h, w]
      | _ \<Rightarrow> Inl RuntimeError)"

text \<open>
  \<^verbatim>\<open>Tensor.unfold(dim, size, step)\<close>: windows of \<open>size\<close> along \<open>dim\<close>, collected in a new
  last axis.
\<close>

definition unfold_dims :: "nat list \<Rightarrow> nat \<Rightarrow> int \<Rightarrow> int \<Rightarrow> error + nat list" where
  "unfold_dims ds d sz step =
     (if step \<le> 0 \<or> sz < 0 \<or> int (ds ! d) < sz then Inl RuntimeError
      else Inr (ds[d := nat ((int (ds ! d) - sz) div step + 1)] @ [nat sz]))"

text \<open>
  Lines 181 to 184: the slice \<^verbatim>\<open>start_ind:end_ind + 1\<close> of the bias axis \<open>d\<close>, centred
  on the stored kernel size.
\<close>

definition rel_slice :: "AttentionConv \<Rightarrow> int \<Rightarrow> nat list \<Rightarrow> nat \<Rightarrow> nat list" where
  "rel_slice self k rel d =
     (let start_ind = kernel_size self div 2 - k div 2;
          end_ind = kernel_size self div 2 + k div 2
      in rel[d := slice_len (rel ! d) start_ind (end_ind + 1)])"

text \<open>
  Line 189: \<^verbatim>\<open>split(out_channels // 2, dim=1)\<close> must give exactly two chunks to unpack;
  an odd channel count gives three, and a chunk size of zero is refused.
\<close>

definition split_dims :: "AttentionConv \<Rightarrow> nat list \<Rightarrow> error + nat list \<times> nat list" where
  "split_dims self ds =
     (let n = int (ds ! 1); s = out_channels self div 2 in
      if s < 0 then Inl RuntimeError
      else if s = 0 then (if n = 0 then Inl ValueError else Inl RuntimeError)
      else if n \<le> s \<or> 2 * s < n then Inl ValueError
      else Inr (ds[1 := nat s], ds[1 := nat (n - s)]))"

text \<open>\<^verbatim>\<open>torch.cat((a, b), dim=1)\<close>: all axes but the second must agree.\<close>

definition cat_dims :: "nat list \<Rightarrow> nat list \<Rightarrow> error + nat list" where
  "cat_dims a b =
     (if length a = length b \<and> a[1 := 0] = b[1 := 0] then Inr (a[1 := a ! 1 + b ! 1])
      else Inl RuntimeError)"

text \<open>
  \<^verbatim>\<open>view(...)\<close> with the given leading dimensions and a last one that is either given
  or \<open>-1\<close> (inferred).
\<close>

definition view_dims :: "nat list \<Rightarrow> int list \<Rightarrow> int option \<Rightarrow> error + nat list" where
  "view_dims ds lead lst =
     (let numel = int (prod_list ds); known = prod_list lead in
      if list_ex (\<lambda>d. d < 0) lead then Inl RuntimeError
      else case lst of
        Some l \<Rightarrow> if known * l = numel then Inr (map nat (lead @ [l])) else Inl RuntimeError
      | None \<Rightarrow>
          if known = 0 \<or> numel mod known \<noteq> 0 then Inl RuntimeError
          else Inr (map nat (lead @ [numel div known])))"

text \<open>\<^verbatim>\<open>squeeze(dim=1)\<close> drops the second axis when its length is one.\<close>

definition squeeze1 :: "nat list \<Rightarrow> nat list" where
  "squeeze1 ds = (if 1 < length ds \<and> ds ! 1 = 1 then hd ds # drop 2 ds else ds)"

text \<open>The shape that \<^verbatim>\<open>AdaptiveMask.forward\<close> returns for an input of shape \<open>ds\<close>.\<close>

definition AdaptiveMask_forward_dims :: "AdaptiveMask \<Rightarrow> nat list \<Rightarrow> error + nat list" where
  "AdaptiveMask_forward_dims m ds =
     bind (one_d_mask m) (\<lambda>r.
       case rev ds of
         [] \<Rightarrow> Inl IndexError
       | n # _ \<Rightarrow> bind (rings r n) (\<lambda>msk. mul_dims (rev ds) n))"

text \<open>
  Lines 149 to 212, for an input of shape \<open>xs\<close>. The leading dimensions of the three
  \<^verbatim>\<open>view\<close> calls divide by \<^verbatim>\<open>groups\<close>, which raises when it is zero; \<^verbatim>\<open>sum(dim=2)\<close>
  drops the third axis, \<^verbatim>\<open>unsqueeze(dim=2)\<close> inserts one of length one, and
  \<^verbatim>\<open>sum(dim=-1)\<close> drops the last.
\<close>

definition AttentionConv_forward_dims :: "AttentionConv \<Rightarrow> nat list \<Rightarrow> error + nat list" where
  "AttentionConv_forward_dims self xs =
     (case xs of
        [batch, channels, height, width] \<Rightarrow>
          bind (effective_kernel_padding self) (\<lambda>(k, p).
          bind (pad_dims xs p) (\<lambda>padded_x.
          bind (conv_dims self xs) (\<lambda>q_out.
          bind (conv_dims self padded_x) (\<lambda>k_out.
          bind (conv_dims self padded_x) (\<lambda>v_out.
          bind (unfold_dims k_out 2 k (stride self)) (\<lambda>k_out.
          bind (unfold_dims k_out 3 k (stride self)) (\<lambda>k_out.
          bind (unfold_dims v_out 2 k (stride self)) (\<lambda>v_out.
          bind (unfold_dims v_out 3 k (stride self)) (\<lambda>v_out.
          let rh = (if adaptive_span self then rel_slice self k (rel_h self) 3 else rel_h self);
              rw = (if adaptive_span self then rel_slice self k (rel_w self) 4 else rel_w self);
              lead = [int batch, groups self, out_channels self div groups self,
                      int height, int width]
          in
          bind (split_dims self k_out) (\<lambda>(k_out_h, k_out_w).
          bind (broadcast k_out_h rh) (\<lambda>kh.
          bind (broadcast k_out_w rw) (\<lambda>kw.
          bind (cat_dims kh kw) (\<lambda>k_out.
          bind (if groups self = 0 then Inl ZeroDivisionError else Inr k_out) (\<lambda>k_out.
          bind (view_dims k_out lead None) (\<lambda>k_out.
          bind (view_dims v_out lead None) (\<lambda>v_out.
          bind (view_dims q_out lead (Some 1)) (\<lambda>q_out.
          bind (broadcast q_out k_out) (\<lambda>qk.
          let out = take 2 qk @ drop 3 qk;
              out2 = take 2 out @ [1] @ drop 2 out
          in
          bind (broadcast out2 v_out) (\<lambda>weighted.
          let out3 = squeeze1 (butlast weighted)
          in AdaptiveMask_forward_dims (adaptive_mask self) out3)))))))))))))))))))
      | _ \<Rightarrow> Inl ValueError)"

section \<open>Notions of the specification\<close>

text \<open>
  The cells of the \<open>i\<close>-th concentric square ring of an \<open>n \<times> n\<close> grid, as the
  specification describes it: the four edges of the square \<open>[i, n-1-i] \<times> [i, n-1-i]\<close>.
\<close>

definition spec_ring :: "nat \<Rightarrow> nat \<Rightarrow> (int \<times> int) list" where
  "spec_ring n i =
     (let lo = int i; hi = int n - 1 - int i in
      filter (\<lambda>(r, c). r = lo \<or> r = hi \<or> c = lo \<or> c = hi) (List.product [lo..hi] [lo..hi]))"

text \<open>A quarter turn of a square grid, and its two reflections.\<close>

definition rot90 :: "'a list list \<Rightarrow> 'a list list" where
  "rot90 g = map rev (transpose g)"

definition reflect_h :: "'a list list \<Rightarrow> 'a list list" where
  "reflect_h g = map rev g"

definition reflect_v :: "'a list list \<Rightarrow> 'a list list" where
  "reflect_v g = rev g"

text \<open>
  The effective kernel size in the specification's words: \<open>ceil(2 * (size + 1))\<close>,
  incremented when even.
\<close>

definition spec_kernel_size :: "real \<Rightarrow> int" where
  "spec_kernel_size s = (let c = \<lceil>2 * (s + 1)\<rceil> in if even c then c + 1 else c)"

section \<open>Auxiliary facts\<close>

lemma bind_Inr [simp]: "bind (Inr v) f = f v"
  by (simp add: bind_def)

lemma bind_Inl [simp]: "bind (Inl e) f = Inl e"
  by (simp add: bind_def)

lemma bind_eq_Inr: "bind r f = Inr y \<longleftrightarrow> (\<exists>v. r = Inr v \<and> f v = Inr y)"
  by (cases r) simp_all

lemma isl_bind: "isl (bind r f) \<longleftrightarrow> isl r \<or> isl (f (projr r))"
  by (cases r) simp_all

lemma length_linspace: "length (linspace a b n) = n"
  by (simp add: linspace_def)

lemma zeros_plus_Inr:
  "zeros_plus sh iv = Inr cv \<longleftrightarrow>
     (case sh of Flat k \<Rightarrow> 0 \<le> k \<and> cv = Span1 (replicate (nat k) iv)
               | Grouped g \<Rightarrow> 0 \<le> g \<and> cv = Span2 (replicate (nat g) iv))"
  by (auto simp: zeros_plus_def split: span_shape.splits)

lemma linspace_steps_Inr: "linspace_steps s = Inr n \<longleftrightarrow> (\<exists>i. s = PyInt i \<and> 0 \<le> i \<and> n = nat i)"
  by (cases s) (auto simp: linspace_steps_def)

lemma AdaptiveMask_init_Inr:
  assumes "AdaptiveMask_init ms rs iv sh = Inr m"
  shows "max_size m = num_val ms" and "ramp_size m = rs" and "0 \<le> num_val ms"
    and "of_int \<lfloor>num_val ms\<rfloor> = num_val ms"
    and "mask_template m = linspace (1 - num_val ms) 0 (nat \<lfloor>num_val ms\<rfloor>)"
    and "zeros_plus sh iv = Inr (current_val m)"
  using assms
  by (auto simp: AdaptiveMask_init_def bind_eq_Inr linspace_steps_Inr)

lemma AdaptiveMask_init_not_assert:
  "AdaptiveMask_init ms rs iv sh \<noteq> Inl AssertionError"
  by (cases ms)
    (auto simp: AdaptiveMask_init_def zeros_plus_def linspace_steps_def bind_def
      split: span_shape.splits)

text \<open>A \<^verbatim>\<open>float\<close> as \<^verbatim>\<open>max_size\<close> never gives a mask.\<close>

lemma AdaptiveMask_init_float:
  "AdaptiveMask_init (PyFloat x) rs iv (Grouped g)
     = Inl (if g < 0 then RuntimeError else TypeError)"
  by (simp add: AdaptiveMask_init_def zeros_plus_def linspace_steps_def)

lemma alloc_Inr: "alloc ds = Inr r \<longleftrightarrow> \<not> list_ex (\<lambda>d. d < 0) ds \<and> r = map nat ds"
  by (auto simp: alloc_def)

lemma init_biases_Inr:
  "init_biases oc ks g img ad = Inr st \<longleftrightarrow>
     g \<noteq> 0 \<and> oc mod g = 0 \<and> 0 \<le> oc div 2 \<and> 0 \<le> ks
     \<and> st = (if ad then img + 1 else ks,
             [nat (oc div 2), 1, 1, nat ks, 1], [nat (oc div 2), 1, 1, 1, nat ks])"
  by (auto simp: init_biases_def Let_def bind_eq_Inr alloc_Inr)

text \<open>
  The constructor of the layer never returns: when the assertion and the allocation of the
  biases pass, the mask's constructor refuses \<^verbatim>\<open>image_size/2\<close>.
\<close>

lemma AttentionConv_init_never_returns:
  "AttentionConv_init ic oc ks st pd g b R z img ad \<noteq> Inr L"
  by (auto simp: AttentionConv_init_def bind_eq_Inr AdaptiveMask_init_float)

lemma AttentionConv_init_after_biases:
  assumes "init_biases oc ks g img ad = Inr s"
  shows "AttentionConv_init ic oc ks st pd g b R z img ad
           = Inl (if g < 0 then RuntimeError else TypeError)"
  using assms by (cases s) (simp add: AttentionConv_init_def AdaptiveMask_init_float)

text \<open>The maximum of a non-empty span parameter, and its monotonicity.\<close>

lemma tensor_max_eq:
  assumes "vs \<noteq> []"
  shows "tensor_max vs = Inr (Max (set vs))"
proof (cases vs)
  case Nil
  then show ?thesis using assms by simp
next
  case (Cons v rest)
  have "fold max rest v = Max (set (v # rest))" by (rule Max.set_eq_fold [symmetric])
  then show ?thesis using Cons by (simp add: tensor_max_def)
qed

lemma Max_list_all2_mono:
  fixes p q :: "real list"
  assumes "list_all2 (\<le>) p q" and "p \<noteq> []"
  shows "Max (set p) \<le> Max (set q)"
proof -
  have "Max (set p) \<in> set p" using assms(2) by simp
  then obtain i where i: "i < length p" "p ! i = Max (set p)"
    by (auto simp: in_set_conv_nth)
  have len: "length p = length q" using assms(1) by (rule list_all2_lengthD)
  have "p ! i \<le> q ! i" using assms(1) i(1) by (rule list_all2_nthD)
  moreover have "q ! i \<le> Max (set q)" using i(1) len by simp
  ultimately show ?thesis using i(2) by simp
qed

lemma Max_const:
  fixes vs :: "real list"
  assumes "set vs = {c}"
  shows "vs \<noteq> []" and "Max (set vs) = c"
  using assms by auto

text \<open>
  What one iteration of the ring loop indexes: every pair has \<open>left\<close> or \<open>right\<close> as
  its first index, so only two rows of the grid are written.
\<close>

lemma ring_indices_cells:
  "set (ring_indices left right) = {left} \<times> {left..right} \<union> {right} \<times> {left + 1..right}"
  by (auto simp: ring_indices_def)

lemma ring_indices_centre: "ring_indices 0 0 = [(0, 0)]"
  by (simp add: ring_indices_def)

lemma ring_indices_crossed: "right < left \<Longrightarrow> ring_indices left right = []"
  by (simp add: ring_indices_def)

text \<open>An input of width one: the whole ramp is kept.\<close>

lemma rings_width_one_scalar:
  assumes "2 \<le> length xs"
  shows "rings (Ramp1 xs) 1 = Inl ValueError"
proof -
  obtain a b rest where xs: "xs = a # b # rest"
    using assms by (cases xs; cases "tl xs") auto
  show ?thesis
    by (simp add: xs rings_def slice_last_def ring_indices_centre ring_indices_crossed
        unzip_indices_def assign_def axis_index_def)
qed

lemma rings_width_one_row:
  assumes "rows \<noteq> []" and "2 \<le> length (hd rows)"
  shows "rings (Ramp2 rows) 1 = Inl RuntimeError"
proof -
  obtain r rest where rows: "rows = r # rest"
    using assms(1) by (cases rows) auto
  have "length r \<noteq> 1" and "length r \<noteq> Suc 0" using assms(2) rows by simp_all
  then show ?thesis
    by (simp add: rows rings_def slice_last_def ring_indices_centre
        unzip_indices_def assign_def)
qed

text \<open>The shape-level forward of the mask agrees with the forward on tensors.\<close>

lemma AdaptiveMask_forward_dims:
  "map_sum id dims (AdaptiveMask_forward m x) = AdaptiveMask_forward_dims m (dims x)"
proof (cases "one_d_mask m")
  case (Inl e)
  then show ?thesis by (simp add: AdaptiveMask_forward_def AdaptiveMask_forward_dims_def)
next
  case (Inr r)
  show ?thesis
  proof (cases "rev (dims x)")
    case Nil
    then show ?thesis using Inr by (simp add: AdaptiveMask_forward_def AdaptiveMask_forward_dims_def)
  next
    case (Cons n ds)
    show ?thesis
    proof (cases "rings r n")
      case (Inl e)
      then show ?thesis
        using Inr Cons by (simp add: AdaptiveMask_forward_def AdaptiveMask_forward_dims_def)
    next
      case msk: (Inr g)
      have "map_sum id dims (mul_mask x n g) = mul_dims (rev (dims x)) n"
        by (cases "mul_dims (rev (dims x)) n") (simp_all add: mul_mask_def Let_def)
      then show ?thesis
        using Inr Cons msk by (simp add: AdaptiveMask_forward_def AdaptiveMask_forward_dims_def)
    qed
  qed
qed

section \<open>The claims\<close>

subsection \<open>Relative bias storage\<close>

text \<open>
  C1. With \<^verbatim>\<open>adaptive_span=True\<close> the bias tensors \<^verbatim>\<open>rel_h\<close> and \<^verbatim>\<open>rel_w\<close> should have a
  bias axis of length \<^verbatim>\<open>image_size + 1\<close>. The constructor stores \<^verbatim>\<open>image_size + 1\<close> in
  \<^verbatim>\<open>self.kernel_size\<close> but allocates both tensors with its argument \<^verbatim>\<open>kernel_size\<close>:
  for \<^verbatim>\<open>AttentionConv(3, 16, kernel_size=3, image_size=32, adaptive_span=True)\<close> lines 104
  to 116 store 33 and allocate bias axes of length 3. (The constructor goes on to the mask
  and raises \<^verbatim>\<open>TypeError\<close> there.)
\<close>

theorem rel_bias_extent_is_kernel_size_argument:
  "init_biases 16 3 1 32 True = Inr (33, [8, 1, 1, 3, 1], [8, 1, 1, 1, 3])
   \<and> AttentionConv_init 3 16 3 1 0 1 False 3 4 32 True = Inl TypeError"
  by code_simp

subsection \<open>The ring construction\<close>

text \<open>
  C2. Ring \<open>i\<close> of the mask should cover the four edges of the square
  \<open>[i, n-1-i] \<times> [i, n-1-i]\<close>. The index list of the source puts the fixed coordinate first in
  all four comprehensions, so it covers the two rows \<open>i\<close> and \<open>n-1-i\<close> only: for
  \<^verbatim>\<open>AdaptiveMask(2, 1)\<close> (ramp \<open>[0, 1]\<close>) and a \<open>4 \<times> 4\<close> input, ring 0 misses the cell
  \<open>(1, 0)\<close> of the left column, which keeps weight 1 where the ring has weight 0.
\<close>

theorem ring_assignment_misses_columns:
  "(1, 0) \<in> set (spec_ring 4 0) \<and> (1, 0) \<notin> set (ring_indices 0 3)
   \<and> ring_indices 0 3
       = [(0, 0), (0, 1), (0, 2), (0, 3), (0, 1), (0, 2), (0, 3),
          (3, 1), (3, 2), (3, 3), (3, 1), (3, 2)]
   \<and> bind (AdaptiveMask_init (PyInt 2) 1 0 (Flat 1)) (\<lambda>m. mask_grid m 4)
       = Inr [[0, 0, 0, 0], [1, 1, 1, 1], [1, 1, 1, 1], [1, 0, 0, 0]]"
  by code_simp

text \<open>
  C3. The weight grid should be invariant under a quarter turn and under both reflections.
  The grid that \<^verbatim>\<open>AdaptiveMask(2, 1)\<close> builds for a \<open>4 \<times> 4\<close> input has none of the three
  symmetries.
\<close>

theorem mask_grid_not_symmetric:
  "map_sum id (\<lambda>g. (rot90 g = g, reflect_h g = g, reflect_v g = g))
     (bind (AdaptiveMask_init (PyInt 2) 1 0 (Flat 1)) (\<lambda>m. mask_grid m 4))
   = Inr (False, False, False)"
  by code_simp

subsection \<open>Effective kernel size and padding\<close>

text \<open>
  C4. With \<^verbatim>\<open>adaptive_span=True\<close> the effective kernel size of a forward call is
  \<open>ceil(2 * (get_current_max_size() + 1))\<close>, incremented by one when even (so it is odd),
  and the effective padding is exactly \<open>(kernel_size - 1) / 2\<close>; with
  \<^verbatim>\<open>adaptive_span=False\<close> both are the values stored at construction.
\<close>

theorem effective_kernel_padding_spec:
  "(adaptive_span self \<longrightarrow> get_current_max_size (adaptive_mask self) True = Inr s \<longrightarrow>
      effective_kernel_padding self = Inr (spec_kernel_size s, (spec_kernel_size s - 1) div 2)
      \<and> odd (spec_kernel_size s)
      \<and> real_of_int ((spec_kernel_size s - 1) div 2) = (real_of_int (spec_kernel_size s) - 1) / 2)
   \<and> (\<not> adaptive_span self \<longrightarrow>
      effective_kernel_padding self = Inr (kernel_size self, padding self))"
proof -
  have odd: "odd (spec_kernel_size s)"
    by (simp add: spec_kernel_size_def Let_def)
  then obtain j where j: "spec_kernel_size s = 2 * j + 1"
    by (auto elim: oddE)
  have pad: "py_int (real_of_int (spec_kernel_size s - 1) / 2) = (spec_kernel_size s - 1) div 2"
    by (simp add: j py_int_def)
  have ex: "real_of_int ((spec_kernel_size s - 1) div 2) = (real_of_int (spec_kernel_size s) - 1) / 2"
    by (simp add: j)
  have ks: "get_current_max_size (adaptive_mask self) True = Inr s \<Longrightarrow>
      adaptive_kernel_size (adaptive_mask self) = Inr (spec_kernel_size s)"
    by (simp add: adaptive_kernel_size_def spec_kernel_size_def Let_def even_iff_mod_2_eq_zero)
  show ?thesis
    using odd pad ex ks by (simp add: effective_kernel_padding_def)
qed

text \<open>
  Two layer states, written out: an adaptive one whose mask is that of
  \<^verbatim>\<open>AdaptiveMask(16, 3, init_val=1/2, shape=(1, 1))\<close>, and a fixed one with
  \<^verbatim>\<open>kernel_size=3\<close>, \<^verbatim>\<open>padding=1\<close>.
\<close>

theorem effective_kernel_padding_spec_witness:
  "effective_kernel_padding
     \<lparr>out_channels = 16, kernel_size = 33, adaptive_span = True, stride = 1, padding = 0,
      groups = 1, rel_h = [8, 1, 1, 33, 1], rel_w = [8, 1, 1, 1, 33],
      adaptive_mask = \<lparr>max_size = 16, ramp_size = 3, current_val = Span2 [1/2],
                        mask_template = linspace (- 15) 0 16\<rparr>,
      in_channels = 3, conv_bias = False\<rparr>
     = Inr (25, 12)
   \<and> effective_kernel_padding
     \<lparr>out_channels = 16, kernel_size = 3, adaptive_span = False, stride = 1, padding = 1,
      groups = 1, rel_h = [8, 1, 1, 3, 1], rel_w = [8, 1, 1, 1, 3],
      adaptive_mask = \<lparr>max_size = 16, ramp_size = 3, current_val = Span2 [4],
                        mask_template = linspace (- 15) 0 16\<rparr>,
      in_channels = 3, conv_bias = False\<rparr>
     = Inr (3, 1)"
proof -
  let ?M = "\<lparr>max_size = 16, ramp_size = 3, current_val = Span2 [1/2],
             mask_template = linspace (- 15) 0 16\<rparr>"
  let ?A = "\<lparr>out_channels = 16, kernel_size = 33, adaptive_span = True, stride = 1,
      padding = 0, groups = 1, rel_h = [8, 1, 1, 33, 1], rel_w = [8, 1, 1, 1, 33],
      adaptive_mask = ?M, in_channels = 3, conv_bias = False\<rparr>"
  let ?F = "\<lparr>out_channels = 16, kernel_size = 3, adaptive_span = False, stride = 1,
      padding = 1, groups = 1, rel_h = [8, 1, 1, 3, 1], rel_w = [8, 1, 1, 1, 3],
      adaptive_mask = \<lparr>max_size = 16, ramp_size = 3, current_val = Span2 [4],
                        mask_template = linspace (- 15) 0 16\<rparr>,
      in_channels = 3, conv_bias = False\<rparr>"
  have s: "get_current_max_size ?M True = Inr 11"
    by (simp add: get_current_max_size_def tensor_max_def)
  have k: "spec_kernel_size 11 = 25" by (simp add: spec_kernel_size_def)
  show ?thesis
    using effective_kernel_padding_spec [of ?A 11] effective_kernel_padding_spec [of ?F] s k
    by simp
qed

text \<open>
  C5. For \<^verbatim>\<open>adaptive_span=True\<close>, \<^verbatim>\<open>image_size=32\<close> (so \<^verbatim>\<open>max_size\<close> 16), \<^verbatim>\<open>R=4\<close> and a
  span of exactly 1.0 in every group, the claimed effective kernel size is 43. On the mask
  \<^verbatim>\<open>AdaptiveMask(16, 4, init_val=1, shape=(1, 1))\<close> the query answers 16, not 20, and
  lines 152 to 157 give 35 with padding 17 on a layer state with that mask.
\<close>

theorem kernel_size_scenario_not_43:
  "bind (AdaptiveMask_init (PyInt 16) 4 1 (Grouped 1)) (\<lambda>m. get_current_max_size m True)
     = Inr 16
   \<and> bind (AdaptiveMask_init (PyInt 16) 4 1 (Grouped 1)) adaptive_kernel_size \<noteq> Inr 43
   \<and> effective_kernel_padding
        \<lparr>out_channels = 16, kernel_size = 33, adaptive_span = True, stride = 1, padding = 0,
         groups = 1, rel_h = [8, 1, 1, 33, 1], rel_w = [8, 1, 1, 1, 33],
         adaptive_mask = \<lparr>max_size = 16, ramp_size = 4, current_val = Span2 [1],
                           mask_template = linspace (- 15) 0 16\<rparr>,
         in_channels = 3, conv_bias = False\<rparr>
       \<noteq> Inr (43, 21)"
  by code_simp

text \<open>
  C5, as the code has it. For every adaptive layer state whose mask has \<^verbatim>\<open>max_size\<close> 16
  (half of \<^verbatim>\<open>image_size=32\<close>), ramp size 4 and span exactly 1.0 in every group, the
  effective kernel size is 35 and the padding 17: the query clamps \<open>16 + 4\<close> to 16, and
  \<open>ceil(2 * (16 + 1)) = 34\<close> is made odd.
\<close>

theorem kernel_size_scenario_35:
  assumes ad: "adaptive_span self"
    and ms: "max_size (adaptive_mask self) = 16"
    and rs: "ramp_size (adaptive_mask self) = 4"
    and ones: "set (span_values (current_val (adaptive_mask self))) = {1}"
  shows "effective_kernel_padding self = Inr (35, 17)"
proof -
  have tm: "tensor_max (span_values (current_val (adaptive_mask self))) = Inr 1"
    using Max_const[OF ones] by (simp add: tensor_max_eq)
  have g: "get_current_max_size (adaptive_mask self) True = Inr 16"
    by (simp add: get_current_max_size_def tm ms rs)
  have k: "adaptive_kernel_size (adaptive_mask self) = Inr 35"
    by (simp add: adaptive_kernel_size_def g Let_def)
  show ?thesis
    using ad by (simp add: effective_kernel_padding_def k py_int_def)
qed

theorem kernel_size_scenario_35_witness:
  "effective_kernel_padding
     \<lparr>out_channels = 16, kernel_size = 33, adaptive_span = True, stride = 1, padding = 0,
      groups = 2, rel_h = [8, 1, 1, 33, 1], rel_w = [8, 1, 1, 1, 33],
      adaptive_mask = \<lparr>max_size = 16, ramp_size = 4, current_val = Span2 [1, 1],
                        mask_template = linspace (- 15) 0 16\<rparr>,
      in_channels = 3, conv_bias = False\<rparr>
   = Inr (35, 17)"
  by (rule kernel_size_scenario_35) simp_all

subsection \<open>Span queries\<close>

text \<open>
  C6. \<^verbatim>\<open>get_current_max_size(include_ramp=False)\<close> is monotonically non-decreasing in the
  stored span values (compared entry by entry), and its result lies in \<open>[0, max_size]\<close>,
  for every mask that the constructor builds and every non-empty span parameter.
\<close>

theorem get_current_max_size_mono_bounded:
  assumes init: "AdaptiveMask_init ms rs iv sh = Inr m"
    and le: "list_all2 (\<le>) (span_values p) (span_values q)"
    and ne: "span_values p \<noteq> []"
  shows "\<exists>a b. get_current_max_size (m\<lparr>current_val := p\<rparr>) False = Inr a
             \<and> get_current_max_size (m\<lparr>current_val := q\<rparr>) False = Inr b
             \<and> a \<le> b \<and> 0 \<le> a \<and> a \<le> max_size m \<and> 0 \<le> b \<and> b \<le> max_size m"
proof -
  have ms: "0 \<le> max_size m" using AdaptiveMask_init_Inr(1,3)[OF init] by simp
  have neq: "span_values q \<noteq> []" using le ne by (auto dest: list_all2_lengthD)
  have mx: "Max (set (span_values p)) \<le> Max (set (span_values q))"
    using le ne by (rule Max_list_all2_mono)
  then have "Max (set (span_values p)) * max_size m \<le> Max (set (span_values q)) * max_size m"
    using ms by (rule mult_right_mono)
  then have c: "\<lceil>Max (set (span_values p)) * max_size m\<rceil> \<le> \<lceil>Max (set (span_values q)) * max_size m\<rceil>"
    by (rule ceiling_mono)
  show ?thesis
    using c ms by (simp add: get_current_max_size_def tensor_max_eq ne neq)
qed

theorem get_current_max_size_mono_bounded_witness:
  "\<exists>a b. get_current_max_size
            ((projr (AdaptiveMask_init (PyInt 16) 3 4 (Grouped 2)))
               \<lparr>current_val := Span2 [1/4, 1/8]\<rparr>)
            False = Inr a
       \<and> get_current_max_size
            ((projr (AdaptiveMask_init (PyInt 16) 3 4 (Grouped 2)))
               \<lparr>current_val := Span2 [1/2, 1/8]\<rparr>)
            False = Inr b
       \<and> a \<le> b \<and> 0 \<le> a \<and> a \<le> 16 \<and> 0 \<le> b \<and> b \<le> 16"
proof -
  have h: "AdaptiveMask_init (PyInt 16) 3 4 (Grouped 2)
      = Inr (projr (AdaptiveMask_init (PyInt 16) 3 4 (Grouped 2)))"
    by code_simp
  have le: "list_all2 (\<le>) (span_values (Span2 [1/4, 1/8])) (span_values (Span2 [1/2, 1/8::real]))"
    by simp
  have ne: "span_values (Span2 [1/4, 1/8]) \<noteq> []" by simp
  have ms: "max_size (projr (AdaptiveMask_init (PyInt 16) 3 4 (Grouped 2))) = 16" by code_simp
  show ?thesis
    using get_current_max_size_mono_bounded [OF h le ne] unfolding ms .
qed

subsection \<open>Construction\<close>

text \<open>
  C7. Construction was claimed to raise exactly when \<^verbatim>\<open>out_channels\<close> is not divisible by
  \<^verbatim>\<open>groups\<close> or not divisible by 2, and never to coerce. For
  \<^verbatim>\<open>AttentionConv(3, 3, kernel_size=3)\<close> the assertion passes and lines 115 and 116
  allocate \<open>3 // 2 = 1\<close> bias channel; the error that the constructor ends in is the
  \<^verbatim>\<open>TypeError\<close> of the mask's \<^verbatim>\<open>linspace\<close>, the one that
  \<^verbatim>\<open>AttentionConv(3, 16, kernel_size=3)\<close> ends in as well.
\<close>

theorem odd_out_channels_accepted:
  "\<not> (2::int) dvd 3
   \<and> init_biases 3 3 1 32 False = Inr (3, [1, 1, 1, 3, 1], [1, 1, 1, 1, 3])
   \<and> AttentionConv_init 3 3 3 1 0 1 False 3 4 32 False = Inl TypeError
   \<and> AttentionConv_init 3 16 3 1 0 1 False 3 4 32 False = Inl TypeError"
  by code_simp

text \<open>
  C7, as the code has it. Construction fails with an \<^verbatim>\<open>AssertionError\<close> exactly when
  \<^verbatim>\<open>groups\<close> is not zero and does not divide \<^verbatim>\<open>out_channels\<close> (\<^verbatim>\<open>groups = 0\<close> is a
  \<^verbatim>\<open>ZeroDivisionError\<close>), before anything is allocated. Divisibility by 2 is not
  checked: whenever \<^verbatim>\<open>groups\<close> divides \<^verbatim>\<open>out_channels\<close> (and no size is negative) the
  biases are allocated with \<^verbatim>\<open>out_channels // 2\<close> (rounded down) channels.
\<close>

theorem AttentionConv_init_raises:
  "(AttentionConv_init ic oc ks st pd g b R z img ad = Inl AssertionError
      \<longleftrightarrow> g \<noteq> 0 \<and> oc mod g \<noteq> 0)
   \<and> (g = 0 \<longrightarrow> AttentionConv_init ic oc ks st pd g b R z img ad = Inl ZeroDivisionError)
   \<and> (g \<noteq> 0 \<and> oc mod g = 0 \<and> 0 \<le> oc \<and> 0 \<le> ks \<longrightarrow>
        init_biases oc ks g img ad
          = Inr (if ad then img + 1 else ks,
                 [nat (oc div 2), 1, 1, nat ks, 1], [nat (oc div 2), 1, 1, 1, nat ks]))"
proof (intro conjI impI)
  show "AttentionConv_init ic oc ks st pd g b R z img ad = Inl AssertionError
      \<longleftrightarrow> g \<noteq> 0 \<and> oc mod g \<noteq> 0"
  proof (cases "init_biases oc ks g img ad")
    case (Inl e)
    then show ?thesis
      by (auto simp: AttentionConv_init_def init_biases_def Let_def alloc_def bind_def
          split: if_splits)
  next
    case (Inr s)
    then have "g \<noteq> 0" and "oc mod g = 0" by (simp_all add: init_biases_Inr)
    then show ?thesis using AttentionConv_init_after_biases [OF Inr] by simp
  qed
next
  assume "g = 0"
  then show "AttentionConv_init ic oc ks st pd g b R z img ad = Inl ZeroDivisionError"
    by (simp add: AttentionConv_init_def init_biases_def)
next
  assume "g \<noteq> 0 \<and> oc mod g = 0 \<and> 0 \<le> oc \<and> 0 \<le> ks"
  then show "init_biases oc ks g img ad
          = Inr (if ad then img + 1 else ks,
                 [nat (oc div 2), 1, 1, nat ks, 1], [nat (oc div 2), 1, 1, 1, nat ks])"
    by (simp add: init_biases_Inr)
qed

theorem AttentionConv_init_raises_witness:
  "AttentionConv_init 3 5 3 1 0 2 False 3 4 32 False = Inl AssertionError
   \<and> AttentionConv_init 3 5 3 1 0 0 False 3 4 32 False = Inl ZeroDivisionError
   \<and> init_biases 5 3 1 32 False = Inr (3, [2, 1, 1, 3, 1], [2, 1, 1, 1, 3])"
  using AttentionConv_init_raises [of 3 5 3 1 0 2 False 3 4 32 False]
    AttentionConv_init_raises [of 3 5 3 1 0 0 False 3 4 32 False]
    AttentionConv_init_raises [of 3 5 3 1 0 1 False 3 4 32 False]
  by simp

text \<open>
  C10. Construction does not clamp the span parameter: the mask's constructor stores its
  \<^verbatim>\<open>init_val\<close>, for which \<^verbatim>\<open>AttentionConv\<close> passes \<^verbatim>\<open>z_init\<close>, unclamped in every entry,
  one entry per group for the shape \<^verbatim>\<open>(groups, 1)\<close>; with the default \<^verbatim>\<open>z_init = 4\<close> every
  entry lies above 1, outside \<open>[0, 1]\<close>. \<^verbatim>\<open>clamp_param\<close> is what brings the entries into
  \<open>[0, 1]\<close>.
\<close>

theorem span_not_clamped_at_construction:
  assumes init: "AdaptiveMask_init ms rs z (Grouped g) = Inr m"
  shows "current_val m = Span2 (replicate (nat g) z)
       \<and> (z = 4 \<longrightarrow> list_all (\<lambda>v. 1 < v) (span_values (current_val m)))
       \<and> list_all (\<lambda>v. 0 \<le> v \<and> v \<le> 1) (span_values (current_val (clamp_param m)))"
proof -
  have "zeros_plus (Grouped g) z = Inr (current_val m)"
    using AdaptiveMask_init_Inr(6)[OF init] .
  then have cv: "current_val m = Span2 (replicate (nat g) z)"
    by (simp add: zeros_plus_Inr)
  show ?thesis
    using cv by (simp add: clamp_param_def clamp_def list_all_iff)
qed

theorem span_not_clamped_at_construction_witness:
  "current_val (projr (AdaptiveMask_init (PyInt 16) 3 4 (Grouped 1))) = Span2 [4]
   \<and> list_all (\<lambda>v. 1 < v)
       (span_values (current_val (projr (AdaptiveMask_init (PyInt 16) 3 4 (Grouped 1)))))
   \<and> list_all (\<lambda>v. 0 \<le> v \<and> v \<le> 1)
       (span_values (current_val (clamp_param
          (projr (AdaptiveMask_init (PyInt 16) 3 4 (Grouped 1))))))"
proof -
  have h: "AdaptiveMask_init (PyInt 16) 3 4 (Grouped 1)
      = Inr (projr (AdaptiveMask_init (PyInt 16) 3 4 (Grouped 1)))"
    by code_simp
  show ?thesis
    using span_not_clamped_at_construction [OF h] by simp
qed

subsection \<open>The forward pass\<close>

text \<open>
  C8. For a zero input of shape \<open>(1, 3, 8, 8)\<close> and a layer built with \<^verbatim>\<open>kernel_size=3\<close>,
  \<^verbatim>\<open>padding=1\<close>, \<^verbatim>\<open>groups=1\<close>, \<^verbatim>\<open>adaptive_span=False\<close>, the forward pass should return a
  zero grid of shape \<open>(1, out_channels, 8, 8)\<close>. For
  \<^verbatim>\<open>AttentionConv(3, 16, kernel_size=3, padding=1)\<close>, the layer of the source's own script,
  no output is returned: the constructor raises \<^verbatim>\<open>TypeError\<close>, since the mask is given
  the float \<^verbatim>\<open>image_size/2\<close> as its number of \<^verbatim>\<open>linspace\<close> steps. The forward pass has a
  defect of its own behind that: on the mask \<^verbatim>\<open>AdaptiveMask(16, 3, init_val=4, shape=(1, 1))\<close>
  the ramp tensor has shape \<open>(1, 16)\<close> and the first ring assignment puts a row of 16
  values on 28 index pairs, which the runtime refuses, and so does the forward pass on a
  layer state with that mask.
\<close>

theorem forward_zero_scenario_raises:
  "bind (AttentionConv_init 3 16 3 1 1 1 False 3 4 32 False)
     (\<lambda>self. AttentionConv_forward_dims self [1, 3, 8, 8]) = Inl TypeError
   \<and> bind (AdaptiveMask_init (PyInt 16) 3 4 (Grouped 1))
       (\<lambda>m. AdaptiveMask_forward_dims m [1, 16, 8, 8]) = Inl RuntimeError
   \<and> bind (AdaptiveMask_init (PyInt 16) 3 4 (Grouped 1))
       (\<lambda>m. bind (one_d_mask m) (\<lambda>r. Inr (ramp_weights (slice_ramp 8 r))))
       = Inr [Row (replicate 16 1)]
   \<and> length (ring_indices 0 7) = 28
   \<and> AttentionConv_forward_dims
        \<lparr>out_channels = 16, kernel_size = 3, adaptive_span = False, stride = 1, padding = 1,
         groups = 1, rel_h = [8, 1, 1, 3, 1], rel_w = [8, 1, 1, 1, 3],
         adaptive_mask = \<lparr>max_size = 16, ramp_size = 3, current_val = Span2 [4],
                           mask_template = linspace (- 15) 0 16\<rparr>,
         in_channels = 3, conv_bias = False\<rparr>
        [1, 3, 8, 8] = Inl RuntimeError"
  by code_simp

text \<open>
  C9. For a mask built with \<^verbatim>\<open>max_size >= 2\<close>, forward on an input whose last axis has
  length 1 was claimed to raise always. A span parameter without entries, shape \<open>(0, 1)\<close>,
  gives a ramp tensor without rows, the ring loop does not run and the input is returned
  multiplied by a grid of ones.
\<close>

theorem forward_width_one_empty_span_returns:
  "map_sum id dims
     (bind (AdaptiveMask_init (PyInt 2) 1 0 (Grouped 0))
        (\<lambda>m. AdaptiveMask_forward m \<lparr>dims = [1, 1], cell = real \<circ> sum_list\<rparr>))
   = Inr [1, 1]"
  by code_simp

text \<open>
  C9, as the code has it. For a mask built with \<^verbatim>\<open>max_size >= 2\<close> whose span parameter
  holds at least one value, forward on an input whose last axis has length 1 raises an
  error. For the shape \<open>(1,)\<close>, the default, and for \<open>(max_size,)\<close> it is the
  \<^verbatim>\<open>ValueError\<close> of the second ring iteration: the slice keeps the entire ramp, and the
  second index list is empty and cannot be unpacked. For the other shapes the runtime
  refuses a broadcast before that.
\<close>

theorem forward_width_one_raises:
  assumes init: "AdaptiveMask_init ms rs iv sh = Inr m"
    and ms: "2 \<le> num_val ms"
    and ne: "span_values (current_val m) \<noteq> []"
    and x: "dims x \<noteq> []" "last (dims x) = 1"
  shows "AdaptiveMask_forward m x =
           Inl (case sh of
                  Flat k \<Rightarrow>
                    if k = 1 \<or> real_of_int k = num_val ms then ValueError else RuntimeError
                | Grouped g \<Rightarrow> RuntimeError)"
proof -
  let ?L = "nat \<lfloor>num_val ms\<rfloor>"
  have L: "2 \<le> ?L" using ms by linarith
  have ts: "length (mask_template m) = ?L"
    using AdaptiveMask_init_Inr(5)[OF init] by (simp add: length_linspace)
  obtain ds where ds: "rev (dims x) = 1 # ds"
    using x by (cases "dims x" rule: rev_cases) auto
  have fw: "AdaptiveMask_forward m x =
      bind (one_d_mask m) (\<lambda>r. bind (rings r 1) (\<lambda>msk. mul_mask x 1 msk))"
    by (simp add: AdaptiveMask_forward_def ds)
  have zp: "zeros_plus sh iv = Inr (current_val m)"
    using AdaptiveMask_init_Inr(6)[OF init] .
  show ?thesis
  proof (cases sh)
    case (Flat k)
    then have cv: "current_val m = Span1 (replicate (nat k) iv)" and k: "0 \<le> k"
      using zp by (simp_all add: zeros_plus_Inr)
    have k1: "1 \<le> nat k" using ne cv by (cases "nat k") auto
    have whole: "real_of_int \<lfloor>num_val ms\<rfloor> = num_val ms"
      using AdaptiveMask_init_Inr(4)[OF init] .
    have "real_of_int k = num_val ms \<longleftrightarrow> k = \<lfloor>num_val ms\<rfloor>"
      using whole by (metis of_int_eq_iff)
    then have eq: "k = 1 \<or> real_of_int k = num_val ms \<longleftrightarrow> nat k = ?L \<or> nat k = 1"
      using k L by auto
    show ?thesis
    proof (cases "nat k = ?L \<or> nat k = 1")
      case True
      have "\<exists>xs. one_d_mask m = Inr (Ramp1 xs) \<and> length xs = ?L"
      proof (cases "nat k = ?L")
        case True
        then show ?thesis using ts by (simp add: one_d_mask_def cv Let_def)
      next
        case False
        then have "nat k = 1" using \<open>nat k = ?L \<or> nat k = 1\<close> by simp
        then show ?thesis using ts False by (simp add: one_d_mask_def cv Let_def)
      qed
      then obtain xs where od: "one_d_mask m = Inr (Ramp1 xs)" and len: "length xs = ?L"
        by blast
      have "rings (Ramp1 xs) 1 = Inl ValueError"
        using len L by (intro rings_width_one_scalar) simp
      then show ?thesis using True eq by (simp add: fw od Flat)
    next
      case False
      then have "one_d_mask m = Inl RuntimeError"
        using ts L by (auto simp: one_d_mask_def cv Let_def)
      then show ?thesis using False eq by (simp add: fw Flat)
    qed
  next
    case (Grouped g)
    then have cv: "current_val m = Span2 (replicate (nat g) iv)"
      using zp by (simp add: zeros_plus_Inr)
    have g1: "1 \<le> nat g" using ne cv by (cases "nat g") auto
    define rows
      where "rows = map (\<lambda>v. map (\<lambda>t. ramp_entry m t v) (mask_template m)) (replicate (nat g) iv)"
    have od: "one_d_mask m = Inr (Ramp2 rows)"
      by (simp add: one_d_mask_def cv Let_def rows_def)
    have "rows \<noteq> []" using g1 by (auto simp: rows_def)
    moreover have "2 \<le> length (hd rows)"
      using g1 L ts by (cases "nat g") (auto simp: rows_def)
    ultimately have "rings (Ramp2 rows) 1 = Inl RuntimeError"
      by (rule rings_width_one_row)
    then show ?thesis using Grouped by (simp add: fw od)
  qed
qed

theorem forward_width_one_raises_witness:
  "AdaptiveMask_forward (projr (AdaptiveMask_init (PyInt 2) 1 0 (Flat 1)))
     \<lparr>dims = [3, 1], cell = real \<circ> sum_list\<rparr> = Inl ValueError"
proof -
  have h: "AdaptiveMask_init (PyInt 2) 1 0 (Flat 1)
      = Inr (projr (AdaptiveMask_init (PyInt 2) 1 0 (Flat 1)))"
    by code_simp
  have ne: "span_values (current_val (projr (AdaptiveMask_init (PyInt 2) 1 0 (Flat 1)))) \<noteq> []"
    by code_simp
  show ?thesis
    using forward_width_one_raises [OF h _ ne,
        of "\<lparr>dims = [3, 1], cell = real \<circ> sum_list\<rparr>"]
    by simp
qed

end
